theory Spec2Isabelle
  imports Complex_Main "HOL-Library.Sublist" "HOL-Library.Option_ord"
    "HOL-Library.Product_Lexorder" "HOL-Library.Multiset"
begin

section \<open>Python strings\<close>

text \<open>
  A Python \<open>str\<close> is modelled as a \<open>string\<close>: its characters are the code points 0 to
  255. The functions below follow Python on all of them. Upper-casing leaves this range at
  three characters, so \<open>upper\<close> gives the code points of its result.
\<close>

definition in_range :: "char \<Rightarrow> char \<Rightarrow> char \<Rightarrow> bool" where
  \<comment> \<open>The regular-expression class \<open>[lo-hi]\<close>, by code point.\<close>
  "in_range lo hi c = ((of_char lo :: nat) \<le> of_char c \<and> (of_char c :: nat) \<le> of_char hi)"

definition is_upper :: "char \<Rightarrow> bool" where
  "is_upper c = in_range CHR ''A'' CHR ''Z'' c"

definition is_lower :: "char \<Rightarrow> bool" where
  "is_lower c = in_range CHR ''a'' CHR ''z'' c"

definition is_digit :: "char \<Rightarrow> bool" where
  \<comment> \<open>The class \<open>\d\<close>: below code point 256 the decimal digits are \<open>0\<close> to \<open>9\<close>.\<close>
  "is_digit c = in_range CHR ''0'' CHR ''9'' c"

definition is_space :: "char \<Rightarrow> bool" where
  \<comment> \<open>\<open>str.isspace\<close>: tab, line feed, vertical tab, form feed, carriage return, the four
      separators 0x1c to 0x1f, the space, the next-line control 0x85 and the no-break space
      0xa0.\<close>
  "is_space c = (in_range (CHR 0x09) (CHR 0x0D) c \<or> in_range (CHR 0x1C) (CHR 0x1F) c
                 \<or> c = CHR '' '' \<or> c = CHR 0x85 \<or> c = CHR 0xA0)"

definition has_lower_case :: "char \<Rightarrow> bool" where
  \<comment> \<open>The characters that \<open>str.lower\<close> changes: \<open>A\<close> to \<open>Z\<close>, and the accented capitals
      0xc0 to 0xde without the multiplication sign 0xd7.\<close>
  "has_lower_case c = (is_upper c \<or> (in_range (CHR 0xC0) (CHR 0xDE) c \<and> c \<noteq> CHR 0xD7))"

fun lower_char :: "char \<Rightarrow> char" where
  \<comment> \<open>The lower-case letter lies 32 code points above its capital.\<close>
  "lower_char (Char b0 b1 b2 b3 b4 b5 b6 b7) =
     (if has_lower_case (Char b0 b1 b2 b3 b4 b5 b6 b7) then Char b0 b1 b2 b3 b4 True b6 b7
      else Char b0 b1 b2 b3 b4 b5 b6 b7)"

definition lower :: "string \<Rightarrow> string" where
  "lower s = map lower_char s"

definition code_points :: "string \<Rightarrow> nat list" where
  "code_points s = map of_char s"

definition upper_char :: "char \<Rightarrow> nat list" where
  \<comment> \<open>\<open>str.upper\<close> of one character: \<open>a\<close> to \<open>z\<close> and the accented small letters 0xe0 to
      0xfe (without the division sign 0xf7) move down by 32; the sharp s 0xdf becomes
      \<open>SS\<close>, the micro sign 0xb5 the Greek capital mu, and 0xff the capital Y with
      diaeresis.\<close>
  "upper_char c =
     (if is_lower c \<or> (in_range (CHR 0xE0) (CHR 0xFE) c \<and> c \<noteq> CHR 0xF7) then [of_char c - 32]
      else if c = CHR 0xDF then [0x53, 0x53]
      else if c = CHR 0xB5 then [0x39C]
      else if c = CHR 0xFF then [0x178]
      else [of_char c])"

definition upper :: "string \<Rightarrow> nat list" where
  "upper s = concat (map upper_char s)"

definition strip :: "string \<Rightarrow> string" where
  \<comment> \<open>\<open>str.strip()\<close>: leading and trailing whitespace removed.\<close>
  "strip s = rev (dropWhile is_space (rev (dropWhile is_space s)))"

definition startswith :: "'a list \<Rightarrow> 'a list \<Rightarrow> bool" where
  "startswith s p = prefix p s"

fun contains :: "string \<Rightarrow> string \<Rightarrow> bool" where
  \<comment> \<open>\<open>k in s\<close> on strings: \<open>k\<close> occurs in \<open>s\<close> as a contiguous run.\<close>
  "contains k [] = (k = [])"
| "contains k (c # s) = (prefix k (c # s) \<or> contains k s)"

definition re_search :: "(char \<Rightarrow> bool) \<Rightarrow> string \<Rightarrow> bool" where
  \<comment> \<open>\<open>re.search\<close> of a single character class: some character of the string is in it.\<close>
  "re_search cls s = list_ex cls s"

section \<open>Validators (users.py)\<close>

definition specials :: string where
  \<open>specials = ''!@#$%^&*(),.?":{}|<>''\<close>

definition is_special :: "char \<Rightarrow> bool" where
  "is_special c = (c \<in> set specials)"

definition is_strong_password :: "string \<Rightarrow> bool \<times> string" where
  "is_strong_password password =
     (if length password < 8 then (False, ''Password must be at least 8 characters'')
      else if \<not> re_search is_upper password then (False, ''Must contain uppercase letter'')
      else if \<not> re_search is_lower password then (False, ''Must contain lowercase letter'')
      else if \<not> re_search is_digit password then (False, ''Must contain digit'')
      else if \<not> re_search is_special password then (False, ''Must contain special character'')
      else (True, ''Valid''))"

section \<open>Database connections\<close>

text \<open>
  The handlers talk to a MySQL server through PyMySQL. What the server and the driver do is
  not in the repository; the model keeps the part the handlers depend on: whether a
  connection can be opened, that a statement sent on a closed connection raises
  \<open>InterfaceError\<close>, and that any statement may raise an error of the server's. The
  environment \<open>env\<close> fixes these for one request, together with the server's clock
  (\<open>NOW()\<close>, in seconds), the comparison of text columns under the schema's collation
  (\<open>text_eq\<close> for \<open>=\<close>, and \<open>text_like value pattern\<close> for \<open>LIKE\<close>), and the password hashing of
  werkzeug. \<open>fails n\<close> is the error text with which the statement number \<open>n\<close> of a
  connection is answered, if the server or the driver fails it.

  The module \<open>decimal\<close> is not in the repository either, and the exponents it accepts
  differ between its builds: \<open>Decimal s\<close> is what \<open>Decimal(s)\<close> makes of a string, a
  finite number, an infinity or a NaN, and \<open>None\<close> where it raises \<open>InvalidOperation\<close>.
\<close>

datatype decimal = Finite rat | Infinite | Not_a_number

datatype py_error =
    InterfaceError
  | AttributeError
  | OperationalError string
  | ProgrammingError
  | InvalidOperation

definition quote :: char where
  "quote = CHR 0x27"

fun error_str :: "py_error \<Rightarrow> string" where
  \<comment> \<open>\<open>str(e)\<close>. A closed connection raises \<open>InterfaceError(0, '')\<close>; \<open>AttributeError\<close> is
      the call of \<open>cursor\<close> on \<open>None\<close>; the server's errors carry the server's text.\<close>
  "error_str InterfaceError = ''(0, '' @ [quote, quote] @ '')''"
| "error_str AttributeError =
     [quote] @ ''NoneType'' @ [quote] @ '' object has no attribute '' @ [quote] @ ''cursor'' @ [quote]"
| "error_str (OperationalError msg) = msg"
| "error_str ProgrammingError = ''You have an error in your SQL syntax''"
| "error_str InvalidOperation = ''[<class '' @ [quote] @ ''decimal.ConversionSyntax'' @ [quote] @ ''>]''"

record connection =
  closed :: bool
  executed :: nat

record env =
  now :: int
  connects :: bool
  fails :: "nat \<Rightarrow> string option"
  text_eq :: "string \<Rightarrow> string \<Rightarrow> bool"
  text_like :: "string \<Rightarrow> string \<Rightarrow> bool"
  generate_password_hash :: "string \<Rightarrow> string"
  check_password_hash :: "string \<Rightarrow> string \<Rightarrow> bool"
  Decimal :: "string \<Rightarrow> decimal option"

definition connect :: "env \<Rightarrow> connection option" where
  \<comment> \<open>\<open>pymysql.connect\<close>: a fresh open connection, or no connection.\<close>
  "connect e = (if connects e then Some \<lparr>closed = False, executed = 0\<rparr> else None)"

definition close :: "connection \<Rightarrow> connection" where
  "close conn = conn\<lparr>closed := True\<rparr>"

definition cursor_execute :: "env \<Rightarrow> connection \<Rightarrow> py_error + connection" where
  \<comment> \<open>What every \<open>cursor.execute\<close> does before the statement has its effect: it raises on a
      closed connection, and where the server fails this statement of the request.\<close>
  "cursor_execute e conn =
     (if closed conn then Inl InterfaceError
      else case fails e (executed conn) of
             Some msg \<Rightarrow> Inl (OperationalError msg)
           | None \<Rightarrow> Inr (conn\<lparr>executed := Suc (executed conn)\<rparr>))"

section \<open>The SQL passthrough endpoint (views.py)\<close>

text \<open>
  A response of the endpoint: \<open>Json_error message status\<close> is the body with the key
  \<open>error\<close>, and \<open>Json_results rows count status\<close> the body with \<open>results\<close> and \<open>count\<close>.
\<close>

datatype 'r api_response =
    Json_error string nat
  | Json_results "'r list" nat nat

definition query_database ::
  "env \<Rightarrow> (string \<Rightarrow> 'r list) \<Rightarrow> string option \<Rightarrow> 'r api_response \<times> string list" where
  \<comment> \<open>\<open>POST /api/query\<close>. \<open>q\<close> is the value of the key \<open>query\<close> of the JSON body, if it has
      one; \<open>rows_of\<close> is what the server answers to a statement. The second component lists
      the statements sent to the server.\<close>
  "query_database e rows_of q =
     (let sql_query = strip (case q of None \<Rightarrow> [] | Some s \<Rightarrow> s) in
      if sql_query = [] then (Json_error ''No query provided'' 400, [])
      else if \<not> startswith (upper sql_query) (code_points ''SELECT'')
        then (Json_error ''Only SELECT queries are allowed'' 400, [])
      else case connect e of
        None \<Rightarrow> (Json_error ''Database connection failed'' 500, [])
      | Some conn \<Rightarrow>
          (case cursor_execute e conn of
             Inl err \<Rightarrow> (Json_error (error_str err) 500, [sql_query])
           | Inr conn' \<Rightarrow>
               (let results = rows_of sql_query in
                (Json_results results (length results) 200, [sql_query]))))"

section \<open>The users blueprint (users.py)\<close>

definition is_local_char :: "char \<Rightarrow> bool" where
  \<comment> \<open>The class \<open>[a-zA-Z0-9._%+-]\<close>.\<close>
  "is_local_char c = (is_lower c \<or> is_upper c \<or> is_digit c \<or> c \<in> set ''._%+-'')"

definition is_domain_char :: "char \<Rightarrow> bool" where
  \<comment> \<open>The class \<open>[a-zA-Z0-9.-]\<close>.\<close>
  "is_domain_char c = (is_lower c \<or> is_upper c \<or> is_digit c \<or> c \<in> set ''.-'')"

definition is_alpha :: "char \<Rightarrow> bool" where
  \<comment> \<open>The class \<open>[a-zA-Z]\<close>.\<close>
  "is_alpha c = (is_lower c \<or> is_upper c)"

definition is_valid_email :: "string \<Rightarrow> bool" where
  \<comment> \<open>\<open>re.match\<close> of \<open>^[a-zA-Z0-9._%+-]+@[a-zA-Z0-9.-]+\.[a-zA-Z]{2,}$\<close>. No class holds the
      at sign, so the local part is the longest run of its class; no letter is a dot, so
      the last group is the longest run of letters at the end; \<open>$\<close> also matches before a
      final line feed.\<close>
  "is_valid_email email =
     (let s = (if email \<noteq> [] \<and> last email = CHR 0x0A then butlast email else email);
          local_part = takeWhile is_local_char s;
          rest = dropWhile is_local_char s
      in local_part \<noteq> [] \<and> rest \<noteq> [] \<and> hd rest = CHR ''@'' \<and>
         (let dom = tl rest;
              tld = rev (takeWhile is_alpha (rev dom));
              pre = rev (dropWhile is_alpha (rev dom))
          in 2 \<le> length tld \<and> pre \<noteq> [] \<and> last pre = CHR ''.'' \<and> butlast pre \<noteq> []
             \<and> list_all is_domain_char (butlast pre)))"

text \<open>
  The tables \<open>UserProfile\<close> and \<open>UserActivityLog\<close>, with the columns the statements of
  users.py name. Times are seconds on the server's clock.
\<close>

record user_row =
  Email :: string
  UserType :: string
  ContactFirstName :: string
  ContactLastName :: string
  UPassword :: string
  Phone :: "string option"
  Website :: "string option"
  BusinessName :: "string option"
  Status :: string
  TimeOfCreation :: int
  LastLogin :: "int option"

record activity_row =
  ActivityEmail :: string
  ActivityType :: string
  ActivityDescription :: "string option"
  ActivityDate :: int

record users_tables =
  UserProfile :: "user_row list"
  UserActivityLog :: "activity_row list"

record session_data =
  user_email :: "string option"
  user_name :: "string option"
  user_type :: "string option"
  permanent :: bool

text \<open>
  What a request can change: the tables, the session, and the flashed messages (each with
  its category), which the next rendered page shows.
\<close>

record world =
  tables :: users_tables
  session :: session_data
  flashed :: "(string \<times> string) list"

datatype http_method = GET | POST

datatype page =
    Redirect string
  | Render string "user_row option"
  | Internal_server_error

definition flash :: "string \<Rightarrow> string \<Rightarrow> world \<Rightarrow> world" where
  "flash message category w = w\<lparr>flashed := flashed w @ [(message, category)]\<rparr>"

definition form_get :: "(string \<rightharpoonup> string) \<Rightarrow> string \<Rightarrow> string" where
  \<comment> \<open>\<open>request.form.get(key, '')\<close>.\<close>
  "form_get form key = (case form key of None \<Rightarrow> [] | Some v \<Rightarrow> v)"

definition or_none :: "string \<Rightarrow> string option" where
  \<comment> \<open>\<open>s or None\<close>.\<close>
  "or_none s = (if s = [] then None else Some s)"

definition on_error :: "string \<Rightarrow> py_error \<Rightarrow> world \<Rightarrow> page \<times> world" where
  \<comment> \<open>The \<open>except Exception as e\<close> branch of a page handler.\<close>
  "on_error endpoint err w = (Redirect endpoint, flash (''Error: '' @ error_str err) ''danger'' w)"

definition find_user :: "env \<Rightarrow> string \<Rightarrow> users_tables \<Rightarrow> user_row option" where
  \<comment> \<open>The first row of \<open>SELECT ... FROM UserProfile WHERE Email = %s\<close>.\<close>
  "find_user e email t = find (\<lambda>u. text_eq e (Email u) email) (UserProfile t)"

definition select_user ::
  "env \<Rightarrow> connection \<Rightarrow> string \<Rightarrow> world \<Rightarrow> py_error + (connection \<times> user_row option)" where
  \<comment> \<open>\<open>cursor.execute\<close> of that statement, then \<open>cursor.fetchone()\<close>.\<close>
  "select_user e conn email w =
     (case cursor_execute e conn of
        Inl err \<Rightarrow> Inl err
      | Inr conn' \<Rightarrow> Inr (conn', find_user e email (tables w)))"

definition insert_user ::
  "env \<Rightarrow> connection \<Rightarrow> user_row \<Rightarrow> world \<Rightarrow> py_error + (connection \<times> world)" where
  \<comment> \<open>\<open>INSERT INTO UserProfile (...) VALUES (...)\<close>.\<close>
  "insert_user e conn u w =
     (case cursor_execute e conn of
        Inl err \<Rightarrow> Inl err
      | Inr conn' \<Rightarrow>
          Inr (conn', w\<lparr>tables := (tables w)\<lparr>UserProfile := UserProfile (tables w) @ [u]\<rparr>\<rparr>))"

definition insert_activity ::
  "env \<Rightarrow> connection \<Rightarrow> string \<Rightarrow> string \<Rightarrow> string option \<Rightarrow> world
     \<Rightarrow> py_error + (connection \<times> world)" where
  \<comment> \<open>\<open>INSERT INTO UserActivityLog (Email, ActivityType[, ActivityDescription],
      ActivityDate) VALUES (%s, ..., NOW())\<close>.\<close>
  "insert_activity e conn email kind descr w =
     (case cursor_execute e conn of
        Inl err \<Rightarrow> Inl err
      | Inr conn' \<Rightarrow>
          Inr (conn', w\<lparr>tables := (tables w)\<lparr>UserActivityLog := UserActivityLog (tables w) @
                 [\<lparr>ActivityEmail = email, ActivityType = kind, ActivityDescription = descr,
                   ActivityDate = now e\<rparr>]\<rparr>\<rparr>))"

definition update_last_login ::
  "env \<Rightarrow> connection \<Rightarrow> string \<Rightarrow> world \<Rightarrow> py_error + (connection \<times> world)" where
  \<comment> \<open>\<open>UPDATE UserProfile SET LastLogin = NOW() WHERE Email = %s\<close>.\<close>
  "update_last_login e conn email w =
     (case cursor_execute e conn of
        Inl err \<Rightarrow> Inl err
      | Inr conn' \<Rightarrow>
          Inr (conn', w\<lparr>tables := (tables w)\<lparr>UserProfile :=
                 map (\<lambda>u. if text_eq e (Email u) email then u\<lparr>LastLogin := Some (now e)\<rparr> else u)
                   (UserProfile (tables w))\<rparr>\<rparr>))"

definition register :: "env \<Rightarrow> http_method \<Rightarrow> (string \<rightharpoonup> string) \<Rightarrow> world \<Rightarrow> page \<times> world" where
  \<comment> \<open>\<open>/users/register\<close>.\<close>
  "register e method form w =
     (if method = GET then (Render ''users/register.html'' None, w)
      else
        let email = lower (strip (form_get form ''email''));
            role = strip (form_get form ''user_type'');
            first_name = strip (form_get form ''first_name'');
            last_name = strip (form_get form ''last_name'');
            password = form_get form ''password'';
            confirm_password = form_get form ''confirm_password'';
            phone = or_none (strip (form_get form ''phone''));
            website = or_none (strip (form_get form ''website''));
            business_name = or_none (strip (form_get form ''business_name''))
        in
        if email = [] \<or> \<not> is_valid_email email
          then (Redirect ''users.register'', flash ''Invalid email address.'' ''danger'' w)
        else if role \<notin> set [''customer'', ''merchant'']
          then (Redirect ''users.register'', flash ''Invalid role.'' ''danger'' w)
        else if first_name = [] \<or> last_name = []
          then (Redirect ''users.register'', flash ''First and last name required.'' ''danger'' w)
        else if password \<noteq> confirm_password
          then (Redirect ''users.register'', flash ''Passwords do not match.'' ''danger'' w)
        else
          (case is_strong_password password of
             (is_valid, msg) \<Rightarrow>
               if \<not> is_valid then (Redirect ''users.register'', flash msg ''danger'' w)
               else
                 (case connect e of
                    None \<Rightarrow> (Redirect ''users.register'', flash ''Database error.'' ''danger'' w)
                  | Some conn \<Rightarrow>
                      (case select_user e conn email w of
                         Inl err \<Rightarrow> on_error ''users.register'' err w
                       | Inr (conn1, existing) \<Rightarrow>
                           if existing \<noteq> None
                             then (Redirect ''users.register'',
                                   flash ''Email already registered.'' ''danger'' w)
                           else
                             (let hashed = generate_password_hash e password in
                              case insert_user e conn1
                                     \<lparr>Email = email, UserType = role,
                                       ContactFirstName = first_name, ContactLastName = last_name,
                                       UPassword = hashed, Phone = phone, Website = website,
                                       BusinessName = business_name, Status = ''active'',
                                       TimeOfCreation = now e, LastLogin = None\<rparr> w of
                                Inl err \<Rightarrow> on_error ''users.register'' err w
                              | Inr (conn2, w1) \<Rightarrow>
                                  (case insert_activity e conn2 email ''Registered'' None w1 of
                                     Inl err \<Rightarrow> on_error ''users.register'' err w1
                                   | Inr (conn3, w2) \<Rightarrow>
                                       (Redirect ''users.login'',
                                        flash ''Account created! Please log in.'' ''success'' w2)))))))"

definition login :: "env \<Rightarrow> http_method \<Rightarrow> (string \<rightharpoonup> string) \<Rightarrow> world \<Rightarrow> page \<times> world" where
  \<comment> \<open>\<open>/users/login\<close>.\<close>
  "login e method form w =
     (if method = GET then (Render ''users/login.html'' None, w)
      else
        let email = lower (strip (form_get form ''email''));
            password = form_get form ''password''
        in
        case connect e of
          None \<Rightarrow> (Redirect ''users.login'', flash ''Database error.'' ''danger'' w)
        | Some conn \<Rightarrow>
            (case select_user e conn email w of
               Inl err \<Rightarrow> on_error ''users.login'' err w
             | Inr (conn1, user) \<Rightarrow>
                 if user = None \<or> \<not> check_password_hash e (UPassword (the user)) password
                   then (Redirect ''users.login'', flash ''Invalid email or password.'' ''danger'' w)
                 else if Status (the user) \<noteq> ''active''
                   then (Redirect ''users.login'', flash ''Account disabled.'' ''warning'' w)
                 else
                   (let w1 = w\<lparr>session :=
                               \<lparr>user_email = Some email,
                                user_name = Some (ContactFirstName (the user) @ '' ''
                                                  @ ContactLastName (the user)),
                                user_type = Some (UserType (the user)),
                                permanent = True\<rparr>\<rparr>
                    in
                    case update_last_login e conn1 email w1 of
                      Inl err \<Rightarrow> on_error ''users.login'' err w1
                    | Inr (conn2, w2) \<Rightarrow>
                        (case insert_activity e conn2 email ''Logged In'' None w2 of
                           Inl err \<Rightarrow> on_error ''users.login'' err w2
                         | Inr (conn3, w3) \<Rightarrow>
                             (Redirect ''users.dashboard'',
                              flash (''Welcome, '' @ ContactFirstName (the user) @ ''!'')
                                ''success'' w3)))))"

datatype assignment =
    Set_ContactFirstName string
  | Set_ContactLastName string
  | Set_Phone string
  | Set_Website string
  | Set_BusinessName string
  | Set_UPassword string

fun assign :: "assignment \<Rightarrow> user_row \<Rightarrow> user_row" where
  "assign (Set_ContactFirstName v) u = u\<lparr>ContactFirstName := v\<rparr>"
| "assign (Set_ContactLastName v) u = u\<lparr>ContactLastName := v\<rparr>"
| "assign (Set_Phone v) u = u\<lparr>Phone := Some v\<rparr>"
| "assign (Set_Website v) u = u\<lparr>Website := Some v\<rparr>"
| "assign (Set_BusinessName v) u = u\<lparr>BusinessName := Some v\<rparr>"
| "assign (Set_UPassword v) u = u\<lparr>UPassword := v\<rparr>"

definition update_profile ::
  "env \<Rightarrow> connection \<Rightarrow> assignment list \<Rightarrow> string \<Rightarrow> world \<Rightarrow> py_error + (connection \<times> world)" where
  \<comment> \<open>\<open>UPDATE UserProfile SET <updates> WHERE Email = %s\<close>.\<close>
  "update_profile e conn updates email w =
     (case cursor_execute e conn of
        Inl err \<Rightarrow> Inl err
      | Inr conn' \<Rightarrow>
          Inr (conn', w\<lparr>tables := (tables w)\<lparr>UserProfile :=
                 map (\<lambda>u. if text_eq e (Email u) email then fold assign updates u else u)
                   (UserProfile (tables w))\<rparr>\<rparr>))"

definition save_profile ::
  "env \<Rightarrow> connection \<Rightarrow> assignment list \<Rightarrow> string \<Rightarrow> world \<Rightarrow> page \<times> world" where
  \<comment> \<open>The end of \<open>profile\<close>, from \<open>if updates:\<close> on.\<close>
  "save_profile e conn updates email w =
     (if updates \<noteq> [] then
        (case update_profile e conn updates email w of
           Inl err \<Rightarrow> on_error ''users.profile'' err w
         | Inr (conn1, w1) \<Rightarrow>
             (case insert_activity e conn1 email ''Profile Updated'' None w1 of
                Inl err \<Rightarrow> on_error ''users.profile'' err w1
              | Inr (conn2, w2) \<Rightarrow>
                  (Redirect ''users.profile'', flash ''Profile updated.'' ''success'' w2)))
      else (Redirect ''users.profile'', flash ''No changes.'' ''info'' w))"

definition reject_password ::
  "env \<Rightarrow> connection \<Rightarrow> string \<Rightarrow> string \<Rightarrow> world \<Rightarrow> page \<times> world" where
  \<comment> \<open>The two rejections of a new password in \<open>profile\<close>: \<open>conn.close()\<close>, the flash of the
      message, then a \<open>SELECT\<close> on the cursor of that connection and the profile page.\<close>
  "reject_password e conn msg email w =
     (let conn1 = close conn;
          w1 = flash msg ''danger'' w
      in case select_user e conn1 email w1 of
           Inl err \<Rightarrow> on_error ''users.profile'' err w1
         | Inr (conn2, user) \<Rightarrow> (Render ''users/profile.html'' user, w1))"

definition profile :: "env \<Rightarrow> http_method \<Rightarrow> (string \<rightharpoonup> string) \<Rightarrow> world \<Rightarrow> page \<times> world" where
  \<comment> \<open>\<open>/users/profile\<close>, under \<open>login_required\<close>.\<close>
  "profile e method form w =
     (case user_email (session w) of
        None \<Rightarrow> (Redirect ''users.login'', flash ''Please log in first.'' ''warning'' w)
      | Some email \<Rightarrow>
          if method = GET then
            (case connect e of
               None \<Rightarrow> (Internal_server_error, w)
             | Some conn \<Rightarrow>
                 (case select_user e conn email w of
                    Inl err \<Rightarrow> (Internal_server_error, w)
                  | Inr (conn1, user) \<Rightarrow> (Render ''users/profile.html'' user, w)))
          else
            let first_name = strip (form_get form ''first_name'');
                last_name = strip (form_get form ''last_name'');
                phone = or_none (strip (form_get form ''phone''));
                website = or_none (strip (form_get form ''website''));
                business_name = or_none (strip (form_get form ''business_name''));
                new_password = strip (form_get form ''new_password'');
                confirm_password = strip (form_get form ''confirm_password'')
            in
            case connect e of
              None \<Rightarrow> on_error ''users.profile'' AttributeError w
            | Some conn \<Rightarrow>
                let updates =
                      (if first_name \<noteq> [] then [Set_ContactFirstName first_name] else [])
                      @ (if last_name \<noteq> [] then [Set_ContactLastName last_name] else [])
                      @ (case phone of None \<Rightarrow> [] | Some v \<Rightarrow> [Set_Phone v])
                      @ (case website of None \<Rightarrow> [] | Some v \<Rightarrow> [Set_Website v])
                      @ (case business_name of None \<Rightarrow> [] | Some v \<Rightarrow> [Set_BusinessName v])
                in
                if new_password \<noteq> [] then
                  (if new_password \<noteq> confirm_password
                     then reject_password e conn ''Passwords do not match.'' email w
                   else
                     (case is_strong_password new_password of
                        (is_valid, msg) \<Rightarrow>
                          if \<not> is_valid then reject_password e conn msg email w
                          else save_profile e conn
                                 (updates @ [Set_UPassword (generate_password_hash e new_password)])
                                 email w))
                else save_profile e conn updates email w)"

section \<open>Chat analysis (users.py)\<close>

datatype canned = New_customers | Active_users | Merchants | Customers | Disabled

fun run_canned :: "env \<Rightarrow> canned \<Rightarrow> users_tables \<Rightarrow> nat" where
  \<comment> \<open>The five \<open>SELECT COUNT(*) as cnt FROM UserProfile WHERE ...\<close> of \<open>queries\<close>.\<close>
  "run_canned e New_customers t =
     length (filter (\<lambda>u. text_eq e (UserType u) ''customer''
                          \<and> now e - 30 * 86400 \<le> TimeOfCreation u) (UserProfile t))"
| "run_canned e Active_users t =
     length (filter (\<lambda>u. text_eq e (Status u) ''active'') (UserProfile t))"
| "run_canned e Merchants t =
     length (filter (\<lambda>u. text_eq e (UserType u) ''merchant'') (UserProfile t))"
| "run_canned e Customers t =
     length (filter (\<lambda>u. text_eq e (UserType u) ''customer'') (UserProfile t))"
| "run_canned e Disabled t =
     length (filter (\<lambda>u. text_eq e (Status u) ''disabled'') (UserProfile t))"

definition queries :: "(string \<times> canned \<times> string) list" where
  \<comment> \<open>The dictionary \<open>queries\<close>, in its insertion order, which is the order of the loop.\<close>
  "queries =
     [(''new customers'', New_customers, ''New customers (30d)''),
      (''active users'', Active_users, ''Total active users''),
      (''merchants'', Merchants, ''Total merchants''),
      (''customers'', Customers, ''Total customers''),
      (''disabled'', Disabled, ''Disabled accounts'')]"

definition not_understood :: string where
  \<open>not_understood =
     ''Query not understood. Try: "new customers", "active users", "merchants", "customers", "disabled"''\<close>

datatype chat_response =
    Login_redirect
  | Chat_error string nat
  | Chat_answer nat string
  | Chat_not_understood string

fun scan_queries ::
  "env \<Rightarrow> connection \<Rightarrow> string \<Rightarrow> users_tables \<Rightarrow> (string \<times> canned \<times> string) list
     \<Rightarrow> py_error + (connection \<times> nat option \<times> string)" where
  \<comment> \<open>The loop over \<open>queries.items()\<close>: the first keyword found in the question runs its
      statement and ends the loop; \<open>result\<close> and \<open>label\<close> start as \<open>None\<close> and \<open>Not found\<close>.\<close>
  "scan_queries e conn question t [] = Inr (conn, None, ''Not found'')"
| "scan_queries e conn question t ((keyword, sql, desc) # rest) =
     (if contains keyword question then
        (case cursor_execute e conn of
           Inl err \<Rightarrow> Inl err
         | Inr conn' \<Rightarrow> Inr (conn', Some (run_canned e sql t), desc))
      else scan_queries e conn question t rest)"

definition chat_analyze :: "env \<Rightarrow> string option \<Rightarrow> world \<Rightarrow> chat_response \<times> world" where
  \<comment> \<open>\<open>POST /users/api/chat-analyze\<close>, under \<open>login_required\<close>. \<open>asked\<close> is the value of the
      key \<open>question\<close> of the JSON body, if it has one. \<open>Chat_answer value label\<close> is the
      response whose \<open>answer\<close> is the label, a colon and the value.\<close>
  "chat_analyze e asked w =
     (case user_email (session w) of
        None \<Rightarrow> (Login_redirect, flash ''Please log in first.'' ''warning'' w)
      | Some email \<Rightarrow>
          let question = lower (strip (case asked of None \<Rightarrow> [] | Some s \<Rightarrow> s)) in
          if question = [] then (Chat_error ''No question'' 400, w)
          else
            case connect e of
              None \<Rightarrow> (Chat_error (error_str AttributeError) 500, w)
            | Some conn \<Rightarrow>
                (case scan_queries e conn question (tables w) queries of
                   Inl err \<Rightarrow> (Chat_error (error_str err) 500, w)
                 | Inr (conn1, result, label) \<Rightarrow>
                     (case insert_activity e conn1 email ''Analysis'' (Some question) w of
                        Inl err \<Rightarrow> (Chat_error (error_str err) 500, w)
                      | Inr (conn2, w1) \<Rightarrow>
                          (case result of
                             Some r \<Rightarrow> (Chat_answer r label, w1)
                           | None \<Rightarrow> (Chat_not_understood not_understood, w1)))))"

section \<open>Product and inventory helpers (product_model.py)\<close>

text \<open>
  The table \<open>product\<close> with the columns the statements of product_model.py name; the text
  columns may be \<open>NULL\<close>, and so may \<open>updated_at\<close>, which the idle-stock query tests for.
  The tables \<open>orders\<close> and \<open>order_items\<close> belong to another module: each is absent, or
  present with other columns than the check expects, or present with the columns \<open>id\<close> and
  \<open>status\<close>, and \<open>order_id\<close> and \<open>product_id\<close>.
\<close>

record product_row =
  product_id :: int
  SKU :: "string option"
  title :: "string option"
  category :: "string option"
  price :: rat
  quantity :: int
  description :: "string option"
  image_url :: "string option"
  archived :: int
  is_sold :: int
  created_at :: int
  updated_at :: "int option"

record order_row =
  order_id_col :: int
  status :: "string option"

record order_item_row =
  item_order_id :: int
  item_product_id :: int

datatype 'r table = Absent | Differs | Rows "'r list"

record shop =
  product :: "product_row list"
  orders :: "order_row table"
  order_items :: "order_item_row table"

definition get_db :: "env \<Rightarrow> py_error + connection" where
  \<comment> \<open>\<open>get_db\<close> of product_model.py: \<open>pymysql.connect\<close> raises when it cannot connect.\<close>
  "get_db e =
     (if connects e then Inr \<lparr>closed = False, executed = 0\<rparr>
      else Inl (OperationalError ''Can not connect to MySQL server''))"

definition archive_product :: "env \<Rightarrow> int \<Rightarrow> shop \<Rightarrow> py_error + shop" where
  \<comment> \<open>\<open>UPDATE product SET archived = 1, updated_at = NOW() WHERE product_id = %s\<close>.\<close>
  "archive_product e pid db =
     (case get_db e of
        Inl err \<Rightarrow> Inl err
      | Inr conn \<Rightarrow>
          (case cursor_execute e conn of
             Inl err \<Rightarrow> Inl err
           | Inr conn' \<Rightarrow>
               Inr (db\<lparr>product :=
                      map (\<lambda>p. if product_id p = pid
                                then p\<lparr>archived := 1, updated_at := Some (now e)\<rparr> else p)
                        (product db)\<rparr>)))"

definition has_table :: "shop \<Rightarrow> string \<Rightarrow> bool" where
  \<comment> \<open>Whether \<open>information_schema.tables\<close> lists the table in the schema.\<close>
  "has_table db name =
     (name = ''product''
      \<or> (name = ''orders'' \<and> orders db \<noteq> Absent)
      \<or> (name = ''order_items'' \<and> order_items db \<noteq> Absent))"

definition table_exists ::
  "env \<Rightarrow> connection \<Rightarrow> shop \<Rightarrow> string \<Rightarrow> py_error + (connection \<times> bool)" where
  \<comment> \<open>\<open>_table_exists\<close>: the count of the matching rows of \<open>information_schema.tables\<close>, as
      a truth value.\<close>
  "table_exists e conn db name =
     (case cursor_execute e conn of
        Inl err \<Rightarrow> Inl err
      | Inr conn' \<Rightarrow> Inr (conn', (if has_table db name then 1 else 0 :: nat) \<noteq> 0))"

definition is_open :: "env \<Rightarrow> order_row \<Rightarrow> bool" where
  \<comment> \<open>\<open>COALESCE(o.status, 'open') NOT IN ('completed','closed','cancelled')\<close>.\<close>
  "is_open e ordr =
     (let st = (case status ordr of None \<Rightarrow> ''open'' | Some v \<Rightarrow> v)
      in \<not> (text_eq e st ''completed'' \<or> text_eq e st ''closed'' \<or> text_eq e st ''cancelled''))"

definition count_open_orders ::
  "env \<Rightarrow> connection \<Rightarrow> int \<Rightarrow> shop \<Rightarrow> py_error + (connection \<times> nat)" where
  \<comment> \<open>The \<open>COUNT(*)\<close> over \<open>order_items oi JOIN orders o ON oi.order_id = o.id\<close>. A table
      without the columns named makes the server answer with an error.\<close>
  "count_open_orders e conn pid db =
     (case cursor_execute e conn of
        Inl err \<Rightarrow> Inl err
      | Inr conn' \<Rightarrow>
          (case (order_items db, orders db) of
             (Rows items, Rows ordrs) \<Rightarrow>
               Inr (conn', length (filter (\<lambda>(oi, ordr). item_order_id oi = order_id_col ordr
                                              \<and> item_product_id oi = pid \<and> is_open e ordr)
                                    (List.product items ordrs)))
           | _ \<Rightarrow> Inl (OperationalError ''Unknown column'')))"

definition open_orders_check :: "env \<Rightarrow> connection \<Rightarrow> int \<Rightarrow> shop \<Rightarrow> py_error + bool" where
  \<comment> \<open>The body of the \<open>try\<close> of \<open>product_has_open_orders\<close>.\<close>
  "open_orders_check e conn pid db =
     (case table_exists e conn db ''orders'' of
        Inl err \<Rightarrow> Inl err
      | Inr (conn1, found_orders) \<Rightarrow>
          if \<not> found_orders then Inr False
          else
            (case table_exists e conn1 db ''order_items'' of
               Inl err \<Rightarrow> Inl err
             | Inr (conn2, found_items) \<Rightarrow>
                 if \<not> found_items then Inr False
                 else
                   (case count_open_orders e conn2 pid db of
                      Inl err \<Rightarrow> Inl err
                    | Inr (conn3, cnt) \<Rightarrow> Inr (cnt \<noteq> 0))))"

definition product_has_open_orders :: "env \<Rightarrow> int \<Rightarrow> shop \<Rightarrow> py_error + bool" where
  \<comment> \<open>\<open>get_db()\<close> stands before the \<open>try\<close>, so its error is the caller's; \<open>except
      Exception\<close> turns every error of the body into \<open>False\<close>.\<close>
  "product_has_open_orders e pid db =
     (case get_db e of
        Inl err \<Rightarrow> Inl err
      | Inr conn \<Rightarrow>
          (case open_orders_check e conn pid db of
             Inl err \<Rightarrow> Inr False
           | Inr b \<Rightarrow> Inr b))"













definition days_idle :: "env \<Rightarrow> product_row \<Rightarrow> int" where
  \<comment> \<open>\<open>DATEDIFF(NOW(), COALESCE(updated_at, created_at))\<close>: the difference of the two
      calendar days.\<close>
  "days_idle e p =
     now e div 86400
       - (case updated_at p of None \<Rightarrow> created_at p | Some t \<Rightarrow> t) div 86400"

definition fetch_idle_stock :: "env \<Rightarrow> int \<Rightarrow> shop \<Rightarrow> py_error + (product_row \<times> int) list" where
  \<comment> \<open>\<open>fetch_idle_stock(days)\<close>. Each returned row is given as the product it is taken
      from (the statement selects its \<open>product_id\<close>, \<open>SKU\<close>, \<open>title\<close>, \<open>category\<close>,
      \<open>price\<close> and \<open>quantity\<close>) with its \<open>days_idle\<close>; \<open>ORDER BY days_idle DESC,
      quantity DESC\<close>.\<close>
  "fetch_idle_stock e days db =
     (case get_db e of
        Inl err \<Rightarrow> Inl err
      | Inr conn \<Rightarrow>
          (case cursor_execute e conn of
             Inl err \<Rightarrow> Inl err
           | Inr conn' \<Rightarrow>
               Inr (rev (sort_key (\<lambda>(p, d). (d, quantity p))
                      (map (\<lambda>p. (p, days_idle e p))
                         (filter (\<lambda>p. archived p = 0
                                      \<and> (case updated_at p of
                                           None \<Rightarrow> True
                                         | Some t \<Rightarrow> t < now e - days * 86400))
                            (product db)))))))"

section \<open>A sample environment\<close>

text \<open>
  One environment and one state to evaluate the handlers on: a server that accepts
  connections and fails no statement, a binary collation (\<open>=\<close> is equality of strings,
  \<open>LIKE\<close> has the wildcards \<open>%\<close> and \<open>_\<close>), a stand-in for the salted hash, and the
  conversion of the module \<open>decimal\<close> of CPython on a 64-bit build.

  \<open>Decimal(s)\<close> drops the whitespace around the string and every underscore in it. What is
  left is an optional sign and then either digits with an optional point (at least one
  digit in all) and an optional exponent, or, in any letter case, \<open>inf\<close> or \<open>infinity\<close>,
  or \<open>nan\<close> or \<open>snan\<close> with digits after it. A number is refused when the exponent of
  its leading digit is above 999999999999999999 or the exponent of its last digit is below
  -1999999999999999997. Anything else raises \<open>InvalidOperation\<close>.
\<close>

definition digits_value :: "string \<Rightarrow> nat" where
  "digits_value ds = foldl (\<lambda>a c. 10 * a + (of_char c - 48)) 0 ds"

definition split_sign :: "string \<Rightarrow> bool \<times> string" where
  \<comment> \<open>An optional sign in front: whether it is a minus, and the rest.\<close>
  "split_sign s =
     (case s of
        [] \<Rightarrow> (False, [])
      | c # r \<Rightarrow> if c = CHR ''-'' then (True, r) else if c = CHR ''+'' then (False, r)
                 else (False, s))"

definition parse_exponent :: "string \<Rightarrow> int option" where
  \<comment> \<open>Nothing, or \<open>e\<close> or \<open>E\<close>, an optional sign and at least one digit.\<close>
  "parse_exponent s =
     (case s of
        [] \<Rightarrow> Some 0
      | c # r \<Rightarrow>
          if c = CHR ''e'' \<or> c = CHR ''E'' then
            (case split_sign r of
               (neg, ds) \<Rightarrow>
                 if ds \<noteq> [] \<and> list_all is_digit ds
                 then Some (if neg then - int (digits_value ds) else int (digits_value ds))
                 else None)
          else None)"

definition special_value :: "string \<Rightarrow> decimal option" where
  \<comment> \<open>The words for the infinities and the NaNs, after the sign.\<close>
  "special_value body =
     (let w = lower body in
      if w = ''inf'' \<or> w = ''infinity'' then Some Infinite
      else if (startswith w ''nan'' \<and> list_all is_digit (drop 3 w))
              \<or> (startswith w ''snan'' \<and> list_all is_digit (drop 4 w))
        then Some Not_a_number
      else None)"

definition cpython_Decimal :: "string \<Rightarrow> decimal option" where
  "cpython_Decimal s =
     (case split_sign (filter (\<lambda>c. c \<noteq> CHR ''_'') (strip s)) of
        (neg, body) \<Rightarrow>
          (case special_value body of
             Some d \<Rightarrow> Some d
           | None \<Rightarrow>
               let int_part = takeWhile is_digit body;
                   after_int = dropWhile is_digit body;
                   after_point = (if after_int \<noteq> [] \<and> hd after_int = CHR ''.''
                                  then tl after_int else after_int);
                   frac_part = (if after_int \<noteq> [] \<and> hd after_int = CHR ''.''
                                then takeWhile is_digit after_point else []);
                   rest = (if after_int \<noteq> [] \<and> hd after_int = CHR ''.''
                           then dropWhile is_digit after_point else after_int)
               in
               if int_part = [] \<and> frac_part = [] then None
               else
                 (case parse_exponent rest of
                    None \<Rightarrow> None
                  | Some ex \<Rightarrow>
                      let coefficient = int_part @ frac_part;
                          significant = max 1 (length (dropWhile (\<lambda>c. c = CHR ''0'') coefficient));
                          last_exp = ex - int (length frac_part)
                      in
                      if 999999999999999999 < last_exp + int significant - 1
                         \<or> last_exp < - 1999999999999999997
                        then None
                      else
                        let magnitude = (if 0 \<le> last_exp
                                         then of_nat (digits_value coefficient) * 10 ^ nat last_exp
                                         else of_nat (digits_value coefficient)
                                                / 10 ^ nat (- last_exp))
                        in Some (Finite (if neg then - magnitude else magnitude)))))"

fun like_match :: "string \<Rightarrow> string \<Rightarrow> bool" where
  "like_match [] [] = True"
| "like_match [] (c # v) = False"
| "like_match (p # ps) [] = (p = CHR ''%'' \<and> like_match ps [])"
| "like_match (p # ps) (c # v) =
     (if p = CHR ''%'' then like_match ps (c # v) \<or> like_match (p # ps) v
      else (p = CHR ''_'' \<or> p = c) \<and> like_match ps v)"

definition sample_env :: env where
  "sample_env =
     \<lparr>now = 8640000, connects = True, fails = (\<lambda>n. None), text_eq = (=),
      text_like = (\<lambda>v p. like_match p v),
      generate_password_hash = (\<lambda>p. ''hash:'' @ p),
      check_password_hash = (\<lambda>h p. h = ''hash:'' @ p),
      Decimal = cpython_Decimal\<rparr>"

definition sample_user :: user_row where
  "sample_user =
     \<lparr>Email = ''ann@shop.example'', UserType = ''merchant'', ContactFirstName = ''Ann'',
      ContactLastName = ''Lee'', UPassword = ''hash:Secret12!'', Phone = None, Website = None,
      BusinessName = None, Status = ''active'', TimeOfCreation = 0, LastLogin = None\<rparr>"

definition sample_world :: world where
  \<comment> \<open>One registered user, who is logged in.\<close>
  "sample_world =
     \<lparr>tables = \<lparr>UserProfile = [sample_user], UserActivityLog = []\<rparr>,
      session = \<lparr>user_email = Some ''ann@shop.example'', user_name = Some ''Ann Lee'',
                 user_type = Some ''merchant'', permanent = True\<rparr>,
      flashed = []\<rparr>"

definition sample_product :: product_row where
  \<comment> \<open>Last updated on day 10; the clock of \<open>sample_env\<close> stands at day 100.\<close>
  "sample_product =
     \<lparr>product_id = 1, SKU = Some ''TEA-001'', title = Some ''Green tea'',
      category = Some ''tea'', price = 9 / 2, quantity = 12, description = None,
      image_url = None, archived = 0, is_sold = 0, created_at = 86400,
      updated_at = Some 864000\<rparr>"

definition sample_mug :: product_row where
  \<comment> \<open>Last updated on day 99.\<close>
  "sample_mug =
     \<lparr>product_id = 2, SKU = Some ''MUG-002'', title = Some ''Mug'',
      category = Some ''kitchen'', price = 7, quantity = 3, description = Some ''For tea'',
      image_url = None, archived = 0, is_sold = 0, created_at = 86400,
      updated_at = Some 8600000\<rparr>"

definition sample_shop :: shop where
  \<comment> \<open>Two products and one order of product 1 that is still open.\<close>
  "sample_shop =
     \<lparr>product = [sample_product, sample_mug],
      orders = Rows [\<lparr>order_id_col = 50, status = Some ''pending''\<rparr>],
      order_items = Rows [\<lparr>item_order_id = 50, item_product_id = 1\<rparr>]\<rparr>"

section \<open>Password strength\<close>

text \<open>
  Claim C4. For every password, \<open>is_strong_password\<close> returns a pair of a flag and a
  message. The five rules are checked in the order length, uppercase, lowercase, digit,
  special character: the result is the failure with the message of the first rule that is
  not met, and it is the success exactly when all five are met.
\<close>

theorem is_strong_password_first_unmet_rule:
  "(length p < 8 \<longrightarrow>
      is_strong_password p = (False, ''Password must be at least 8 characters''))
   \<and> (8 \<le> length p \<and> \<not> re_search is_upper p \<longrightarrow>
      is_strong_password p = (False, ''Must contain uppercase letter''))
   \<and> (8 \<le> length p \<and> re_search is_upper p \<and> \<not> re_search is_lower p \<longrightarrow>
      is_strong_password p = (False, ''Must contain lowercase letter''))
   \<and> (8 \<le> length p \<and> re_search is_upper p \<and> re_search is_lower p
        \<and> \<not> re_search is_digit p \<longrightarrow>
      is_strong_password p = (False, ''Must contain digit''))
   \<and> (8 \<le> length p \<and> re_search is_upper p \<and> re_search is_lower p
        \<and> re_search is_digit p \<and> \<not> re_search is_special p \<longrightarrow>
      is_strong_password p = (False, ''Must contain special character''))
   \<and> (fst (is_strong_password p) \<longleftrightarrow>
        8 \<le> length p \<and> re_search is_upper p \<and> re_search is_lower p
        \<and> re_search is_digit p \<and> re_search is_special p)"
  by (simp add: is_strong_password_def)

theorem is_strong_password_first_unmet_rule_witness:
  "is_strong_password ''Ab1!'' = (False, ''Password must be at least 8 characters'')
   \<and> is_strong_password ''abcdefg1!'' = (False, ''Must contain uppercase letter'')
   \<and> is_strong_password ''ABCDEFG1!'' = (False, ''Must contain lowercase letter'')
   \<and> is_strong_password ''Abcdefgh!'' = (False, ''Must contain digit'')
   \<and> is_strong_password ''Abcdefgh1'' = (False, ''Must contain special character'')
   \<and> fst (is_strong_password ''Abcdefg1!'')"
  using is_strong_password_first_unmet_rule [of "''Ab1!''"]
    is_strong_password_first_unmet_rule [of "''abcdefg1!''"]
    is_strong_password_first_unmet_rule [of "''ABCDEFG1!''"]
    is_strong_password_first_unmet_rule [of "''Abcdefgh!''"]
    is_strong_password_first_unmet_rule [of "''Abcdefgh1''"]
    is_strong_password_first_unmet_rule [of "''Abcdefg1!''"]
  by (simp add: re_search_def is_upper_def is_lower_def is_digit_def is_special_def
      specials_def in_range_def)

section \<open>The SELECT guard\<close>

text \<open>
  Claim C8. The SQL passthrough endpoint sends a statement to the server only if the
  upper-cased text of the (stripped) statement begins with \<open>SELECT\<close>; every other statement
  gets an error response and nothing is sent. The guard is this prefix test and nothing
  else: with a connection, every statement that passes the test is sent as it is, whatever
  follows the prefix.
\<close>

theorem query_database_select_prefix_guard:
  "(snd (query_database e rows_of (Some q)) \<noteq> [] \<longrightarrow>
      startswith (upper (strip q)) (code_points ''SELECT''))
   \<and> (\<not> startswith (upper (strip q)) (code_points ''SELECT'') \<longrightarrow>
        snd (query_database e rows_of (Some q)) = []
        \<and> fst (query_database e rows_of (Some q)) \<in>
            {Json_error ''No query provided'' 400, Json_error ''Only SELECT queries are allowed'' 400})
   \<and> (strip q \<noteq> [] \<and> \<not> startswith (upper (strip q)) (code_points ''SELECT'') \<longrightarrow>
        fst (query_database e rows_of (Some q)) = Json_error ''Only SELECT queries are allowed'' 400)
   \<and> (startswith (upper (strip q)) (code_points ''SELECT'') \<and> connects e \<longrightarrow>
        snd (query_database e rows_of (Some q)) = [strip q])"
  by (auto simp: query_database_def Let_def connect_def startswith_def upper_def code_points_def
      split: option.splits sum.splits)

lemmas sample_simps = sample_env_def sample_world_def sample_user_def find_user_def form_get_def
  lower_def upper_def upper_char_def code_points_def strip_def is_space_def has_lower_case_def
  is_upper_def is_lower_def in_range_def

theorem query_database_select_prefix_guard_witness:
  "snd (query_database sample_env (\<lambda>s. [length s]) (Some ''  select 1; drop table product ''))
     = [''select 1; drop table product'']
   \<and> fst (query_database sample_env (\<lambda>s. [length s]) (Some ''DELETE FROM product''))
     = Json_error ''Only SELECT queries are allowed'' 400
   \<and> snd (query_database sample_env (\<lambda>s. [length s]) (Some ''DELETE FROM product'')) = []
   \<and> snd (query_database sample_env (\<lambda>s. [length s]) (Some (CHR 0xA0 # ''SELECT 1'')))
     = [''SELECT 1'']"
  using query_database_select_prefix_guard
      [of sample_env "\<lambda>s. [length s]" "''  select 1; drop table product ''"]
    query_database_select_prefix_guard
      [of sample_env "\<lambda>s. [length s]" "''DELETE FROM product''"]
    query_database_select_prefix_guard
      [of sample_env "\<lambda>s. [length s]" "CHR 0xA0 # ''SELECT 1''"]
  by (simp add: sample_simps startswith_def)

section \<open>Login failures\<close>

text \<open>
  Claim C5. With a connection and a server that answers the lookup, a login with an email
  that no row has and a login with an email that a row has but a password that does not
  check flash the same message, \<open>Invalid email or password.\<close>, and go back to the login
  page; the message \<open>Account disabled.\<close> is flashed exactly when the row is found, the
  password checks and the row's \<open>Status\<close> is not \<open>active\<close>.
\<close>

theorem login_failure_message:
  assumes "connects e" and "fails e 0 = None"
  shows "(find_user e (lower (strip (form_get form1 ''email''))) (tables w1) = None
          \<and> find_user e (lower (strip (form_get form2 ''email''))) (tables w2) = Some u
          \<and> \<not> check_password_hash e (UPassword u) (form_get form2 ''password'')
          \<longrightarrow> login e POST form1 w1
                = (Redirect ''users.login'', flash ''Invalid email or password.'' ''danger'' w1)
            \<and> login e POST form2 w2
                = (Redirect ''users.login'', flash ''Invalid email or password.'' ''danger'' w2))
       \<and> (flashed (snd (login e POST form w)) = flashed w @ [(''Account disabled.'', ''warning'')]
            \<longleftrightarrow> (\<exists>v. find_user e (lower (strip (form_get form ''email''))) (tables w) = Some v
                  \<and> check_password_hash e (UPassword v) (form_get form ''password'')
                  \<and> Status v \<noteq> ''active''))"
  using assms
  by (auto simp: login_def select_user_def cursor_execute_def connect_def Let_def flash_def
      on_error_def update_last_login_def insert_activity_def
      split: option.splits sum.splits)

theorem login_failure_message_witness:
  "login sample_env POST [''email'' \<mapsto> ''Bob@shop.example'', ''password'' \<mapsto> ''Secret12!'']
       sample_world
     = (Redirect ''users.login'', flash ''Invalid email or password.'' ''danger'' sample_world)
   \<and> login sample_env POST
       [''email'' \<mapsto> CHR 0xA0 # ''Ann@shop.example'', ''password'' \<mapsto> ''secret''] sample_world
     = (Redirect ''users.login'', flash ''Invalid email or password.'' ''danger'' sample_world)
   \<and> flashed (snd (login sample_env POST
        [''email'' \<mapsto> ''ann@shop.example'', ''password'' \<mapsto> ''Secret12!'']
        (sample_world\<lparr>tables := \<lparr>UserProfile = [sample_user\<lparr>Status := ''disabled''\<rparr>],
                                   UserActivityLog = []\<rparr>\<rparr>)))
     = [(''Account disabled.'', ''warning'')]"
  using login_failure_message [where e = sample_env
      and ?form1.0 = "[''email'' \<mapsto> ''Bob@shop.example'', ''password'' \<mapsto> ''Secret12!'']"
      and ?w1.0 = sample_world
      and ?form2.0 = "[''email'' \<mapsto> CHR 0xA0 # ''Ann@shop.example'', ''password'' \<mapsto> ''secret'']"
      and ?w2.0 = sample_world and u = sample_user
      and form = "[''email'' \<mapsto> ''ann@shop.example'', ''password'' \<mapsto> ''Secret12!'']"
      and w = "sample_world\<lparr>tables := \<lparr>UserProfile = [sample_user\<lparr>Status := ''disabled''\<rparr>],
                                   UserActivityLog = []\<rparr>\<rparr>"]
  by (simp add: sample_simps)

section \<open>Registering an email twice\<close>

lemma is_space_lower_char: "is_space (lower_char c) = is_space c"
  by (cases c) (auto simp: is_space_def has_lower_case_def is_upper_def in_range_def)

lemma strip_lower: "strip (lower s) = lower (strip s)"
proof -
  have comp: "is_space \<circ> lower_char = is_space"
    by (rule ext) (simp add: is_space_lower_char)
  have dw: "dropWhile is_space (map lower_char xs) = map lower_char (dropWhile is_space xs)" for xs
    by (simp add: dropWhile_map comp)
  show ?thesis
    by (simp add: strip_def lower_def dw rev_map)
qed

lemma register_success_row:
  assumes "register e POST form w = (Redirect ''users.login'', w1)"
  shows "lower (strip (form_get form ''email'')) \<in> Email ` set (UserProfile (tables w1))"
  using assms
  by (auto simp: register_def Let_def on_error_def flash_def insert_user_def insert_activity_def
      select_user_def split: if_splits prod.splits option.splits sum.splits)

lemma find_user_present:
  assumes "x \<in> Email ` set (UserProfile t)" and "text_eq e x x"
  shows "find_user e x t \<noteq> None"
  using assms by (auto simp: find_user_def find_None_iff)

lemma register_existing_email:
  assumes "find_user e (lower (strip (form_get form ''email''))) (tables w) \<noteq> None"
  shows "fst (register e POST form w) = Redirect ''users.register''
       \<and> tables (snd (register e POST form w)) = tables w"
  using assms
  by (auto simp: register_def Let_def on_error_def flash_def select_user_def
      split: if_splits prod.splits option.splits sum.splits)

lemma register_existing_email_message:
  assumes "find_user e (lower (strip (form_get form ''email''))) (tables w) \<noteq> None"
    and "is_valid_email (lower (strip (form_get form ''email'')))"
    and "strip (form_get form ''user_type'') \<in> {''customer'', ''merchant''}"
    and "strip (form_get form ''first_name'') \<noteq> []"
    and "strip (form_get form ''last_name'') \<noteq> []"
    and "form_get form ''password'' = form_get form ''confirm_password''"
    and "fst (is_strong_password (form_get form ''password''))"
    and "connects e" and "fails e 0 = None"
  shows "register e POST form w =
           (Redirect ''users.register'', flash ''Email already registered.'' ''danger'' w)"
proof -
  from assms(2) have "lower (strip (form_get form ''email'')) \<noteq> []"
    by (auto simp: is_valid_email_def Let_def)
  with assms show ?thesis
    by (auto simp: register_def Let_def select_user_def connect_def cursor_execute_def
        split: prod.splits option.splits sum.splits)
qed

text \<open>
  Claim C9. Let a first registration succeed, and let a second one submit an email that is
  equal to the first up to letter case, in any later state that still holds the emails
  stored after the first (no handler deletes a row). Then the second registration is
  sent back to the registration page and changes no table, so no second row with that
  email is stored; when its other fields are valid and the server answers, the message is
  \<open>Email already registered.\<close>. The comparison of the column \<open>Email\<close> is only taken to
  hold between equal strings.
\<close>

theorem register_twice_rejected:
  assumes first: "register e1 POST form1 w = (Redirect ''users.login'', w1)"
    and same: "lower (form_get form2 ''email'') = lower (form_get form1 ''email'')"
    and kept: "Email ` set (UserProfile (tables w1)) \<subseteq> Email ` set (UserProfile (tables w2))"
    and refl: "\<forall>s. text_eq e2 s s"
  shows "fst (register e2 POST form2 w2) = Redirect ''users.register''
       \<and> tables (snd (register e2 POST form2 w2)) = tables w2
       \<and> (strip (form_get form2 ''user_type'') \<in> {''customer'', ''merchant''}
            \<and> strip (form_get form2 ''first_name'') \<noteq> []
            \<and> strip (form_get form2 ''last_name'') \<noteq> []
            \<and> form_get form2 ''password'' = form_get form2 ''confirm_password''
            \<and> fst (is_strong_password (form_get form2 ''password''))
            \<and> connects e2 \<and> fails e2 0 = None
          \<longrightarrow> register e2 POST form2 w2 =
                (Redirect ''users.register'', flash ''Email already registered.'' ''danger'' w2))"
proof -
  have eq: "lower (strip (form_get form2 ''email'')) = lower (strip (form_get form1 ''email''))"
    using same by (metis strip_lower)
  from first
  have row: "lower (strip (form_get form1 ''email'')) \<in> Email ` set (UserProfile (tables w1))"
    by (rule register_success_row)
  from first have valid: "is_valid_email (lower (strip (form_get form1 ''email'')))"
    by (auto simp: register_def Let_def on_error_def
        split: if_splits prod.splits option.splits sum.splits)
  from row kept refl have found:
    "find_user e2 (lower (strip (form_get form2 ''email''))) (tables w2) \<noteq> None"
    unfolding eq by (intro find_user_present) auto
  have valid2: "is_valid_email (lower (strip (form_get form2 ''email'')))"
    using valid eq by simp
  show ?thesis
    using register_existing_email [OF found] register_existing_email_message [OF found valid2]
    by blast
qed

lemmas handler_simps = register_def is_valid_email_def is_local_char_def
        is_domain_char_def is_alpha_def is_digit_def is_strong_password_def re_search_def
        is_special_def specials_def connect_def select_user_def cursor_execute_def
        insert_user_def insert_activity_def Let_def

theorem register_twice_rejected_witness:
  "register sample_env POST
          [''email'' \<mapsto> ''BOB@Shop.Example'', ''user_type'' \<mapsto> ''customer'', ''first_name'' \<mapsto> ''Bob'',
           ''last_name'' \<mapsto> ''Ray'', ''password'' \<mapsto> ''Secret12!'', ''confirm_password'' \<mapsto> ''Secret12!'']
          (snd (register sample_env POST
          [''email'' \<mapsto> ''bob@shop.example'', ''user_type'' \<mapsto> ''customer'', ''first_name'' \<mapsto> ''Bob'',
           ''last_name'' \<mapsto> ''Ray'', ''password'' \<mapsto> ''Secret12!'', ''confirm_password'' \<mapsto> ''Secret12!'']
          sample_world))
     = (Redirect ''users.register'',
        flash ''Email already registered.'' ''danger''
          (snd (register sample_env POST
          [''email'' \<mapsto> ''bob@shop.example'', ''user_type'' \<mapsto> ''customer'', ''first_name'' \<mapsto> ''Bob'',
           ''last_name'' \<mapsto> ''Ray'', ''password'' \<mapsto> ''Secret12!'', ''confirm_password'' \<mapsto> ''Secret12!'']
          sample_world)))"
proof -
  let ?f1 = "[''email'' \<mapsto> ''bob@shop.example'', ''user_type'' \<mapsto> ''customer'', ''first_name'' \<mapsto> ''Bob'',
           ''last_name'' \<mapsto> ''Ray'', ''password'' \<mapsto> ''Secret12!'', ''confirm_password'' \<mapsto> ''Secret12!'']"
  let ?f2 = "[''email'' \<mapsto> ''BOB@Shop.Example'', ''user_type'' \<mapsto> ''customer'', ''first_name'' \<mapsto> ''Bob'',
           ''last_name'' \<mapsto> ''Ray'', ''password'' \<mapsto> ''Secret12!'', ''confirm_password'' \<mapsto> ''Secret12!'']"
  have "fst (register sample_env POST ?f1 sample_world) = Redirect ''users.login''"
    by (simp add: handler_simps sample_simps)
  then have first: "register sample_env POST ?f1 sample_world
      = (Redirect ''users.login'', snd (register sample_env POST ?f1 sample_world))"
    by (metis prod.collapse)
  have same: "lower (form_get ?f2 ''email'') = lower (form_get ?f1 ''email'')"
    by (simp add: sample_simps)
  have refl: "\<forall>s. text_eq sample_env s s"
    by (simp add: sample_env_def)
  have strong: "fst (is_strong_password ''Secret12!'')"
    by (simp add: handler_simps sample_simps)
  from register_twice_rejected [OF first same subset_refl refl] strong
  show ?thesis by (simp add: sample_simps)
qed

section \<open>A rejected password change\<close>

text \<open>
  Claim C10. Take a profile update of a logged-in user, with a connection, whose new password
  is not empty and either differs from the confirmation or fails the strength check. The
  handler closes the connection, flashes the message of the failure, and sends a
  \<open>SELECT\<close> on the closed connection; this raises \<open>InterfaceError\<close>. So the handler does
  not render the profile page: it ends in its exception branch, which flashes the generic
  \<open>Error: ...\<close> message and redirects to the profile endpoint. No table is changed.
\<close>

theorem profile_rejected_password:
  assumes "user_email (session w) = Some email" and "connects e"
    and "np = strip (form_get form ''new_password'')"
    and "cp = strip (form_get form ''confirm_password'')"
    and "np \<noteq> []"
    and "np \<noteq> cp \<or> \<not> fst (is_strong_password np)"
  shows "cursor_execute e (close conn) = Inl InterfaceError
    \<and> profile e POST form w =
        (Redirect ''users.profile'',
         w\<lparr>flashed := flashed w @
             [(if np \<noteq> cp then ''Passwords do not match.'' else snd (is_strong_password np), ''danger''),
              (''Error: '' @ error_str InterfaceError, ''danger'')]\<rparr>)
    \<and> (\<forall>t u. fst (profile e POST form w) \<noteq> Render t u)
    \<and> tables (snd (profile e POST form w)) = tables w"
  using assms
  by (auto simp: profile_def reject_password_def select_user_def cursor_execute_def connect_def
      close_def Let_def flash_def on_error_def split: option.splits sum.splits prod.splits)

theorem profile_rejected_password_witness:
  "profile sample_env POST
       [''new_password'' \<mapsto> ''Secret12!'' @ [CHR 0xA0], ''confirm_password'' \<mapsto> ''Secret12?'']
       sample_world
     = (Redirect ''users.profile'',
        sample_world\<lparr>flashed := [(''Passwords do not match.'', ''danger''),
                                 (''Error: '' @ error_str InterfaceError, ''danger'')]\<rparr>)
   \<and> profile sample_env POST [''new_password'' \<mapsto> ''secret'', ''confirm_password'' \<mapsto> ''secret'']
       sample_world
     = (Redirect ''users.profile'',
        sample_world\<lparr>flashed := [(''Password must be at least 8 characters'', ''danger''),
                                 (''Error: '' @ error_str InterfaceError, ''danger'')]\<rparr>)"
  using profile_rejected_password [where w = sample_world and e = sample_env
      and email = "''ann@shop.example''"
      and form = "[''new_password'' \<mapsto> ''Secret12!'' @ [CHR 0xA0],
                   ''confirm_password'' \<mapsto> ''Secret12?'']"
      and np = "''Secret12!''" and cp = "''Secret12?''"]
    profile_rejected_password [where w = sample_world and e = sample_env
      and email = "''ann@shop.example''"
      and form = "[''new_password'' \<mapsto> ''secret'', ''confirm_password'' \<mapsto> ''secret'']"
      and np = "''secret''" and cp = "''secret''"]
  by (simp add: sample_simps is_strong_password_def)

section \<open>Chat analysis: the first phrase and the audit row\<close>

lemma scan_queries_result:
  assumes "\<not> closed conn" and "\<forall>n. fails e n = None"
  shows "\<exists>conn'. \<not> closed conn' \<and>
           scan_queries e conn question t qs =
             Inr (conn', case find (\<lambda>k. contains (fst k) question) qs of
                           None \<Rightarrow> (None, ''Not found'')
                         | Some (k, sql, d) \<Rightarrow> (Some (run_canned e sql t), d))"
  using assms
  by (induction e conn question t qs rule: scan_queries.induct) (auto simp: cursor_execute_def)

lemma chat_analyze_result:
  assumes "user_email (session w) = Some email" and "connects e" and "\<forall>n. fails e n = None"
    and "question = lower (strip q)" and "question \<noteq> []"
  shows "chat_analyze e (Some q) w =
          ((case find (\<lambda>k. contains (fst k) question) queries of
              None \<Rightarrow> Chat_not_understood not_understood
            | Some (k, sql, d) \<Rightarrow> Chat_answer (run_canned e sql (tables w)) d),
           w\<lparr>tables := (tables w)\<lparr>UserActivityLog := UserActivityLog (tables w) @
                 [\<lparr>ActivityEmail = email, ActivityType = ''Analysis'',
                   ActivityDescription = Some question, ActivityDate = now e\<rparr>]\<rparr>\<rparr>)"
proof -
  obtain conn' where c: "\<not> closed conn'"
    and s: "scan_queries e \<lparr>closed = False, executed = 0\<rparr> question (tables w) queries =
             Inr (conn', case find (\<lambda>k. contains (fst k) question) queries of
                           None \<Rightarrow> (None, ''Not found'')
                         | Some (k, sql, d) \<Rightarrow> (Some (run_canned e sql (tables w)), d))"
    using scan_queries_result [of "\<lparr>closed = False, executed = 0\<rparr>" e question "tables w" queries]
      assms(3) by auto
  show ?thesis
    using assms c s
    by (auto simp: chat_analyze_def connect_def Let_def insert_activity_def cursor_execute_def
        split: option.splits prod.splits)
qed

text \<open>
  Claim C7, as amended. A logged-in user asks a question whose stripped, lower-cased text
  \<open>question\<close> is not empty; the connection opens and no statement fails. Then the
  endpoint answers with the count and the label of the first phrase of \<open>queries\<close>, in its
  order, that \<open>question\<close> contains; if it contains none, the answer is the message
  \<open>not_understood\<close>, which quotes every phrase. In both cases one row is appended to
  \<open>UserActivityLog\<close>, and its description is \<open>question\<close>, the stripped and lower-cased
  text, not the text as it was sent.
\<close>

theorem chat_analyze_first_phrase:
  assumes "user_email (session w) = Some email" and "connects e" and "\<forall>n. fails e n = None"
    and "question = lower (strip q)" and "question \<noteq> []"
  shows "(i < length queries \<and> contains (fst (queries ! i)) question
            \<and> (\<forall>j<i. \<not> contains (fst (queries ! j)) question)
          \<longrightarrow> fst (chat_analyze e (Some q) w) =
                Chat_answer (run_canned e (fst (snd (queries ! i))) (tables w))
                  (snd (snd (queries ! i))))
       \<and> ((\<forall>k \<in> set queries. \<not> contains (fst k) question)
          \<longrightarrow> fst (chat_analyze e (Some q) w) = Chat_not_understood not_understood)
       \<and> list_all (\<lambda>k. contains ([CHR 0x22] @ fst k @ [CHR 0x22]) not_understood) queries
       \<and> snd (chat_analyze e (Some q) w) =
           w\<lparr>tables := (tables w)\<lparr>UserActivityLog := UserActivityLog (tables w) @
                 [\<lparr>ActivityEmail = email, ActivityType = ''Analysis'',
                   ActivityDescription = Some question, ActivityDate = now e\<rparr>]\<rparr>\<rparr>"
proof -
  note r = chat_analyze_result [OF assms]
  have a: "fst (chat_analyze e (Some q) w) =
             Chat_answer (run_canned e (fst (snd (queries ! i))) (tables w))
               (snd (snd (queries ! i)))"
    if "i < length queries" and "contains (fst (queries ! i)) question"
      and "\<forall>j<i. \<not> contains (fst (queries ! j)) question"
  proof -
    have "find (\<lambda>k. contains (fst k) question) queries = Some (queries ! i)"
      using that by (auto simp: find_Some_iff)
    then show ?thesis
      by (simp add: r split: prod.splits)
  qed
  have b: "fst (chat_analyze e (Some q) w) = Chat_not_understood not_understood"
    if "\<forall>k \<in> set queries. \<not> contains (fst k) question"
  proof -
    have "find (\<lambda>k. contains (fst k) question) queries = None"
      using that by (auto simp: find_None_iff)
    then show ?thesis by (simp add: r)
  qed
  have c: "list_all (\<lambda>k. contains ([CHR 0x22] @ fst k @ [CHR 0x22]) not_understood) queries"
    by (simp add: queries_def not_understood_def)
  show ?thesis
    using a b c by (simp add: r)
qed

theorem chat_analyze_first_phrase_witness:
  "fst (chat_analyze sample_env (Some '' Customers or Merchants? '') sample_world)
     = Chat_answer 1 ''Total merchants''
   \<and> fst (chat_analyze sample_env (Some ''Hello'') sample_world)
     = Chat_not_understood not_understood
   \<and> UserActivityLog (tables (snd (chat_analyze sample_env (Some ''Hello'') sample_world)))
     = [\<lparr>ActivityEmail = ''ann@shop.example'', ActivityType = ''Analysis'',
         ActivityDescription = Some ''hello'', ActivityDate = 8640000\<rparr>]
   \<and> UserActivityLog (tables (snd (chat_analyze sample_env
         (Some (CHR 0xA0 # ''CAF'' @ [CHR 0xC9])) sample_world)))
     = [\<lparr>ActivityEmail = ''ann@shop.example'', ActivityType = ''Analysis'',
         ActivityDescription = Some (''caf'' @ [CHR 0xE9]), ActivityDate = 8640000\<rparr>]"
  using chat_analyze_first_phrase [where w = sample_world and e = sample_env
      and email = "''ann@shop.example''" and q = "'' Customers or Merchants? ''"
      and question = "''customers or merchants?''" and i = 2]
    chat_analyze_first_phrase [where w = sample_world and e = sample_env
      and email = "''ann@shop.example''" and q = "''Hello''"
      and question = "''hello''" and i = 0]
    chat_analyze_first_phrase [where w = sample_world and e = sample_env
      and email = "''ann@shop.example''" and q = "CHR 0xA0 # ''CAF'' @ [CHR 0xC9]"
      and question = "''caf'' @ [CHR 0xE9]" and i = 0]
  by (simp add: sample_simps queries_def numeral_2_eq_2 All_less_Suc)

text \<open>
  The claim as stated fails: for the question \<open>Active Users\<close> the audit row holds
  \<open>active users\<close>, which does not contain the text that was sent.
\<close>

theorem chat_analyze_logs_lowered_question:
  "map ActivityDescription
     (UserActivityLog (tables (snd (chat_analyze sample_env (Some ''Active Users'') sample_world))))
     = [Some ''active users'']
   \<and> \<not> contains ''Active Users'' ''active users''"
  by (simp add: chat_analyze_def sample_simps queries_def connect_def cursor_execute_def
      insert_activity_def Let_def)

section \<open>Archiving and the open-orders check\<close>

lemmas shop_simps = sample_env_def sample_shop_def sample_product_def sample_mug_def

lemma open_orders_check_fails:
  assumes "n < 3" and "fails e n \<noteq> None"
  shows "open_orders_check e \<lparr>closed = False, executed = 0\<rparr> pid db = Inr False
       \<or> (\<exists>err. open_orders_check e \<lparr>closed = False, executed = 0\<rparr> pid db = Inl err)"
proof -
  from assms(1) have "n = 0 \<or> n = Suc 0 \<or> n = Suc (Suc 0)" by arith
  with assms(2) show ?thesis
    by (auto simp: open_orders_check_def table_exists_def count_open_orders_def
        cursor_execute_def split: option.splits table.splits)
qed

lemma open_orders_check_tables:
  assumes "orders db = Absent \<or> order_items db = Absent \<or> orders db = Differs
          \<or> order_items db = Differs"
  shows "open_orders_check e conn pid db = Inr False
       \<or> (\<exists>err. open_orders_check e conn pid db = Inl err)"
  using assms
  by (cases "orders db"; cases "order_items db")
     (simp_all add: open_orders_check_def table_exists_def count_open_orders_def has_table_def
        split: sum.splits)

lemma no_open_orders:
  assumes "connects e"
    and "open_orders_check e \<lparr>closed = False, executed = 0\<rparr> pid db = Inr False
       \<or> (\<exists>err. open_orders_check e \<lparr>closed = False, executed = 0\<rparr> pid db = Inl err)"
  shows "product_has_open_orders e pid db = Inr False"
  using assms by (auto simp: product_has_open_orders_def get_db_def)

lemma archived_rows:
  fixes f :: "product_row \<Rightarrow> product_row"
  assumes "f = (\<lambda>p. if product_id p = pid then p\<lparr>archived := 1, updated_at := t\<rparr> else p)"
  shows "list_all (\<lambda>p. product_id p = pid \<longrightarrow> archived p = 1) (map f xs)"
    and "filter (\<lambda>p. product_id p \<noteq> pid) (map f xs) = filter (\<lambda>p. product_id p \<noteq> pid) xs"
    and "map product_id (map f xs) = map product_id xs"
  unfolding assms by (induction xs) simp_all

lemma archive_product_result:
  assumes "connects e" and "fails e 0 = None"
  shows "archive_product e pid db =
           Inr (db\<lparr>product :=
                  map (\<lambda>p. if product_id p = pid
                            then p\<lparr>archived := 1, updated_at := Some (now e)\<rparr> else p)
                    (product db)\<rparr>)"
  using assms by (simp add: archive_product_def get_db_def cursor_execute_def)

text \<open>
  Claim C6, as amended. With a connection, \<open>product_has_open_orders\<close> answers \<open>False\<close>
  whenever the table \<open>orders\<close> or \<open>order_items\<close> is absent, or has other columns than the
  check names, or one of the three statements of the check raises. \<open>archive_product\<close>
  does not consult the check: whenever its connection opens and its \<open>UPDATE\<close> is
  answered, it sets the flag \<open>archived\<close> of every row with the given id and leaves the
  other rows and the order tables as they are. So it succeeds in all the cases in which
  the check answers \<open>False\<close>, the absent order tables among them, and not only in these.
\<close>

theorem archive_not_blocked:
  assumes "connects e"
  shows "(orders db = Absent \<or> order_items db = Absent \<or> orders db = Differs
            \<or> order_items db = Differs \<or> (\<exists>n<3. fails e n \<noteq> None)
          \<longrightarrow> product_has_open_orders e pid db = Inr False)
       \<and> (fails e 0 = None
          \<longrightarrow> (\<exists>db'. archive_product e pid db = Inr db'
                \<and> list_all (\<lambda>p. product_id p = pid \<longrightarrow> archived p = 1) (product db')
                \<and> filter (\<lambda>p. product_id p \<noteq> pid) (product db')
                    = filter (\<lambda>p. product_id p \<noteq> pid) (product db)
                \<and> map product_id (product db') = map product_id (product db)
                \<and> orders db' = orders db \<and> order_items db' = order_items db))"
proof (intro conjI impI)
  assume "orders db = Absent \<or> order_items db = Absent \<or> orders db = Differs
            \<or> order_items db = Differs \<or> (\<exists>n<3. fails e n \<noteq> None)"
  then consider "orders db = Absent \<or> order_items db = Absent \<or> orders db = Differs
            \<or> order_items db = Differs" | n where "n < 3" "fails e n \<noteq> None"
    by blast
  then show "product_has_open_orders e pid db = Inr False"
  proof cases
    case 1
    from open_orders_check_tables [OF 1] show ?thesis
      by (intro no_open_orders [OF assms])
  next
    case 2
    from open_orders_check_fails [OF 2] show ?thesis
      by (intro no_open_orders [OF assms])
  qed
next
  assume ok: "fails e 0 = None"
  let ?f = "\<lambda>p. if product_id p = pid
                 then p\<lparr>archived := 1, updated_at := Some (now e)\<rparr> else p"
  show "\<exists>db'. archive_product e pid db = Inr db'
                \<and> list_all (\<lambda>p. product_id p = pid \<longrightarrow> archived p = 1) (product db')
                \<and> filter (\<lambda>p. product_id p \<noteq> pid) (product db')
                    = filter (\<lambda>p. product_id p \<noteq> pid) (product db)
                \<and> map product_id (product db') = map product_id (product db)
                \<and> orders db' = orders db \<and> order_items db' = order_items db"
    using archive_product_result [OF assms ok, of pid db]
      archived_rows [of ?f pid "Some (now e)" "product db"]
    by (intro exI [of _ "db\<lparr>product := map ?f (product db)\<rparr>"]) simp
qed

theorem archive_not_blocked_witness:
  "product_has_open_orders sample_env 1 (sample_shop\<lparr>orders := Absent\<rparr>) = Inr False
   \<and> (\<exists>db'. archive_product sample_env 1 (sample_shop\<lparr>orders := Absent\<rparr>) = Inr db'
         \<and> map archived (product db') = [1, 0])"
proof -
  have c: "connects sample_env" "fails sample_env 0 = None"
    by (simp_all add: sample_env_def)
  note t = archive_not_blocked [OF c(1), of "sample_shop\<lparr>orders := Absent\<rparr>" 1]
  from t [THEN conjunct1] have a: "product_has_open_orders sample_env 1
       (sample_shop\<lparr>orders := Absent\<rparr>) = Inr False"
    by simp
  from t [THEN conjunct2] c(2) obtain db' where
    r: "archive_product sample_env 1 (sample_shop\<lparr>orders := Absent\<rparr>) = Inr db'"
    by blast
  have "archive_product sample_env 1 (sample_shop\<lparr>orders := Absent\<rparr>) =
          Inr (sample_shop\<lparr>orders := Absent,
                 product := [sample_product\<lparr>archived := 1, updated_at := Some (now sample_env)\<rparr>,
                             sample_mug]\<rparr>)"
    by (simp add: archive_product_result [OF c] sample_shop_def sample_product_def
        sample_mug_def)
  with r have m: "map archived (product db') = [1, 0]"
    by (auto simp: sample_mug_def)
  from r m have "\<exists>d. archive_product sample_env 1 (sample_shop\<lparr>orders := Absent\<rparr>) = Inr d
         \<and> map archived (product d) = [1, 0]"
    by auto
  with a show ?thesis by (rule conjI)
qed

text \<open>
  The claim as stated fails: product 1 of the sample shop has an open order, the check
  answers \<open>True\<close>, and \<open>archive_product\<close> archives the product all the same.
\<close>

theorem archive_product_with_open_order:
  "product_has_open_orders sample_env 1 sample_shop = Inr True
   \<and> archive_product sample_env 1 sample_shop =
       Inr (sample_shop\<lparr>product :=
              [sample_product\<lparr>archived := 1, updated_at := Some 8640000\<rparr>, sample_mug]\<rparr>)"
proof -
  have c: "connects sample_env" "fails sample_env 0 = None"
    by (simp_all add: sample_env_def)
  have a: "product_has_open_orders sample_env 1 sample_shop = Inr True"
    by (simp add: product_has_open_orders_def get_db_def open_orders_check_def
        table_exists_def has_table_def count_open_orders_def cursor_execute_def is_open_def
        sample_env_def sample_shop_def)
  have b: "archive_product sample_env 1 sample_shop =
       Inr (sample_shop\<lparr>product :=
              [sample_product\<lparr>archived := 1, updated_at := Some 8640000\<rparr>, sample_mug]\<rparr>)"
    unfolding archive_product_result [OF c] by (simp add: shop_simps)
  from a b show ?thesis by simp
qed

section \<open>Idle stock\<close>

text \<open>
  Claim C1 at a product that was never updated. The clock stands at day 100 and the
  product was created on that day, so it is idle for 0 days; \<open>fetch_idle_stock\<close> with
  30 days returns it all the same, with \<open>days_idle\<close> 0, because the \<open>WHERE\<close> clause
  takes every row whose \<open>updated_at\<close> is \<open>NULL\<close>.
\<close>

theorem fetch_idle_stock_never_updated:
  "fetch_idle_stock sample_env 30
     (sample_shop\<lparr>product := [sample_product\<lparr>created_at := 8640000, updated_at := None\<rparr>]\<rparr>)
     = Inr [(sample_product\<lparr>created_at := 8640000, updated_at := None\<rparr>, 0)]
   \<and> now sample_env = 8640000"
  by (simp add: fetch_idle_stock_def get_db_def cursor_execute_def days_idle_def shop_simps)

section \<open>Searching products\<close>
















end
